theory Spec2Isabelle
  imports Complex_Main
begin

section \<open>JavaScript numbers\<close>

text \<open>
  The pipeline computes with JavaScript numbers and stores them in typed arrays. What the
  code observes of a number is whether it is NaN, an infinity or finite, so a number is one
  of those. The finite numbers are idealised to the reals: rounding, overflow of a finite
  operation to an infinity, the narrowing of a number to 32 bits when it is stored in a
  \<open>Float32Array\<close>, and the sign of zero are not part of this model. The special
  values follow IEEE 754: NaN is absorbing, opposite infinities do not add, zero times an
  infinity is NaN, a non-zero finite number divided by zero is an infinity.
\<close>

datatype jsnum = Num real | PInf | NInf | NaN

fun isNaN :: "jsnum \<Rightarrow> bool" where
  "isNaN NaN = True"
| "isNaN _ = False"

fun isFinite :: "jsnum \<Rightarrow> bool" where
  "isFinite (Num _) = True"
| "isFinite _ = False"

fun jneg :: "jsnum \<Rightarrow> jsnum" where
  "jneg (Num a) = Num (- a)"
| "jneg PInf = NInf"
| "jneg NInf = PInf"
| "jneg NaN = NaN"

fun jadd :: "jsnum \<Rightarrow> jsnum \<Rightarrow> jsnum" where
  "jadd (Num a) (Num b) = Num (a + b)"
| "jadd NaN _ = NaN"
| "jadd _ NaN = NaN"
| "jadd PInf NInf = NaN"
| "jadd NInf PInf = NaN"
| "jadd PInf _ = PInf"
| "jadd _ PInf = PInf"
| "jadd NInf _ = NInf"
| "jadd _ NInf = NInf"

definition jsub :: "jsnum \<Rightarrow> jsnum \<Rightarrow> jsnum" where
  "jsub a b = jadd a (jneg b)"

text \<open>The sign of an infinity scaled by a non-zero factor.\<close>

definition signed_inf :: "bool \<Rightarrow> jsnum" where
  "signed_inf positive = (if positive then PInf else NInf)"

fun jmul :: "jsnum \<Rightarrow> jsnum \<Rightarrow> jsnum" where
  "jmul (Num a) (Num b) = Num (a * b)"
| "jmul NaN _ = NaN"
| "jmul _ NaN = NaN"
| "jmul PInf (Num b) = (if b = 0 then NaN else signed_inf (0 < b))"
| "jmul NInf (Num b) = (if b = 0 then NaN else signed_inf (b < 0))"
| "jmul (Num a) PInf = (if a = 0 then NaN else signed_inf (0 < a))"
| "jmul (Num a) NInf = (if a = 0 then NaN else signed_inf (a < 0))"
| "jmul PInf PInf = PInf"
| "jmul NInf NInf = PInf"
| "jmul PInf NInf = NInf"
| "jmul NInf PInf = NInf"

fun jdiv :: "jsnum \<Rightarrow> jsnum \<Rightarrow> jsnum" where
  "jdiv (Num a) (Num b) =
     (if b = 0 then (if a = 0 then NaN else signed_inf (0 < a)) else Num (a / b))"
| "jdiv NaN _ = NaN"
| "jdiv _ NaN = NaN"
| "jdiv (Num a) _ = Num 0"
| "jdiv PInf (Num b) = signed_inf (0 \<le> b)"
| "jdiv NInf (Num b) = signed_inf (b < 0)"
| "jdiv _ _ = NaN"

text \<open>
  Reading an array: an index outside the array reads \<open>undefined\<close>, which is NaN as soon as
  it meets arithmetic or is stored in a typed array.
\<close>

definition rd :: "jsnum list \<Rightarrow> nat \<Rightarrow> jsnum" where
  "rd xs i = (if i < length xs then xs ! i else NaN)"

section \<open>Matrices of gl-matrix\<close>

text \<open>
  A \<open>mat4\<close> is an array of 16 numbers and a \<open>mat3\<close> one of 9, both column by column.
  \<open>mat4.create()\<close> and \<open>mat3.create()\<close> return the identity.
\<close>

type_synonym mat4 = "jsnum list"
type_synonym mat3 = "jsnum list"
type_synonym vec = "jsnum list"

definition mat4_create :: mat4 where
  "mat4_create =
     [Num 1, Num 0, Num 0, Num 0,
      Num 0, Num 1, Num 0, Num 0,
      Num 0, Num 0, Num 1, Num 0,
      Num 0, Num 0, Num 0, Num 1]"

definition mat3_create :: mat3 where
  "mat3_create =
     [Num 1, Num 0, Num 0,
      Num 0, Num 1, Num 0,
      Num 0, Num 0, Num 1]"

text \<open>
  \<open>mat4.multiply(out, a, b)\<close>: each entry of \<open>out\<close> is the sum of four products, added
  from the left, one column of \<open>b\<close> at a time.
\<close>

definition mul_line :: "mat4 \<Rightarrow> jsnum \<Rightarrow> jsnum \<Rightarrow> jsnum \<Rightarrow> jsnum \<Rightarrow> nat \<Rightarrow> jsnum" where
  "mul_line a b0 b1 b2 b3 r =
     jadd (jadd (jadd (jmul b0 (rd a r)) (jmul b1 (rd a (4 + r))))
                (jmul b2 (rd a (8 + r))))
          (jmul b3 (rd a (12 + r)))"

definition mat4_multiply :: "mat4 \<Rightarrow> mat4 \<Rightarrow> mat4" where
  "mat4_multiply a b =
     concat (map (\<lambda>c. map (mul_line a (rd b (4 * c)) (rd b (4 * c + 1))
                                       (rd b (4 * c + 2)) (rd b (4 * c + 3)))
                           [0, 1, 2, 3])
                 [0, 1, 2, 3])"

text \<open>
  \<open>mat3.translate(out, a, v)\<close> and \<open>mat3.scale(out, a, v)\<close>; both read \<open>a\<close> before they
  write \<open>out\<close>, so that \<open>out\<close> may be \<open>a\<close> itself.
\<close>

definition mat3_translate :: "mat3 \<Rightarrow> jsnum \<times> jsnum \<Rightarrow> mat3" where
  "mat3_translate a v =
     (case v of (x, y) \<Rightarrow>
       [rd a 0, rd a 1, rd a 2,
        rd a 3, rd a 4, rd a 5,
        jadd (jadd (jmul x (rd a 0)) (jmul y (rd a 3))) (rd a 6),
        jadd (jadd (jmul x (rd a 1)) (jmul y (rd a 4))) (rd a 7),
        jadd (jadd (jmul x (rd a 2)) (jmul y (rd a 5))) (rd a 8)])"

definition mat3_scale :: "mat3 \<Rightarrow> jsnum \<times> jsnum \<Rightarrow> mat3" where
  "mat3_scale a v =
     (case v of (x, y) \<Rightarrow>
       [jmul x (rd a 0), jmul x (rd a 1), jmul x (rd a 2),
        jmul y (rd a 3), jmul y (rd a 4), jmul y (rd a 5),
        rd a 6, rd a 7, rd a 8])"

text \<open>
  A matrix applied to a colour, as \<open>vec4.transformMat4\<close> and the shader do it: the matrix
  times the column vector.
\<close>

definition transformMat4 :: "mat4 \<Rightarrow> vec \<Rightarrow> vec" where
  "transformMat4 m v =
     map (\<lambda>r. jadd (jadd (jadd (jmul (rd m r) (rd v 0)) (jmul (rd m (4 + r)) (rd v 1)))
                          (jmul (rd m (8 + r)) (rd v 2)))
                    (jmul (rd m (12 + r)) (rd v 3)))
         [0, 1, 2, 3]"

definition finite_mat :: "nat \<Rightarrow> jsnum list \<Rightarrow> bool" where
  "finite_mat n m = (length m = n \<and> list_all isFinite m)"

section \<open>Covariance and mean from the sampled sums\<close>

text \<open>
  Modelled from the spec: \<open>matrixFrom\<close> of la.js is not among the sources. It builds the
  matrix with the given numbers of rows and columns whose entry \<open>[i][j]\<close> is \<open>e(i, j)\<close>;
  the matrix is kept as the list of its rows.
\<close>

definition matrixFrom :: "nat \<Rightarrow> nat \<Rightarrow> (nat \<Rightarrow> nat \<Rightarrow> jsnum) \<Rightarrow> jsnum list list" where
  "matrixFrom rows cols e = map (\<lambda>i. map (\<lambda>j. e i j) [0..<cols]) [0..<rows]"

text \<open>
  \<open>sumsToCov(s)\<close>: from the 4 by 4 sums of the outer products of the sampled pixels with
  themselves to the covariance matrix.
\<close>

definition sumsToCov :: "(nat \<Rightarrow> nat \<Rightarrow> jsnum) \<Rightarrow> jsnum list list" where
  "sumsToCov s =
     (let n = s 3 3;
          e = (\<lambda>i j. jdiv (jsub (s i j) (jdiv (jmul (s i 3) (s 3 j)) n)) (jsub n (Num 1)))
      in matrixFrom 3 3 e)"

text \<open>The accessor \<open>sums\<close> and the vector \<open>means\<close> that \<open>render\<close> builds from the pixels read back.\<close>

definition sums_of :: "jsnum list \<Rightarrow> nat \<Rightarrow> nat \<Rightarrow> jsnum" where
  "sums_of pixels i j = rd pixels (i * 4 + j)"

definition means_of :: "(nat \<Rightarrow> nat \<Rightarrow> jsnum) \<Rightarrow> vec" where
  "means_of s = [jdiv (s 0 3) (s 3 3), jdiv (s 1 3) (s 3 3), jdiv (s 2 3) (s 3 3)]"

section \<open>The frame compositor\<close>

record frame =
  width :: jsnum
  height :: jsnum

text \<open>
  What a projection function returns: \<open>toScreen\<close> (x, y, scale), \<open>screenBoundsInImage\<close>
  (left, top, right, bottom), \<open>imageWidth\<close> and \<open>imageHeight\<close>, with the fields of the two
  inner objects written with their owner's name.
\<close>

record projected =
  toScreen_x :: jsnum
  toScreen_y :: jsnum
  toScreen_scale :: jsnum
  bounds_left :: jsnum
  bounds_top :: jsnum
  bounds_right :: jsnum
  bounds_bottom :: jsnum
  imageWidth :: jsnum
  imageHeight :: jsnum

record capture =
  fileName :: string
  mime :: string

text \<open>
  The props read at the start of a tick. \<open>decor\<close> is absent or a strength; \<open>post\<close> and
  \<open>projection\<close> are absent or an object; \<open>captureSignal\<close> holds what the poll returns in
  this tick.
\<close>

record props =
  decor :: "jsnum option"
  post :: "mat4 option"
  projection :: "(jsnum \<Rightarrow> projected) option"
  captureSignal :: "capture option"

text \<open>The texture holds the one placeholder pixel it was created with, or a camera image.\<close>

datatype 'img texture = Placeholder | Uploaded 'img

text \<open>
  The collaborators of \<open>render\<close> whose code is not among the sources are its parameters:
  the statistics sampler's \<open>sample\<close>, and \<open>decorStretcher\<close> and \<open>mat4scaleThenTranslate2d\<close>
  of la.js.
\<close>

record 'img env =
  sample :: "'img texture \<Rightarrow> mat3 \<Rightarrow> jsnum list"
  decorStretcher :: "jsnum list list \<Rightarrow> vec \<Rightarrow> jsnum \<Rightarrow> mat4"
  mat4scaleThenTranslate2d :: "jsnum \<Rightarrow> jsnum \<Rightarrow> jsnum \<Rightarrow> mat4"

text \<open>
  The variables that live across ticks, and the pending-frame slot \<open>nextFrame\<close>. The
  matrices are kept as values: \<open>render\<close> assigns the arrays it gets and writes only into
  the fresh \<open>colorTransformation\<close>, so no array it holds changes under it.
\<close>

record 'img state =
  texture :: "'img texture"
  lastFrame :: frame
  seenCamera :: bool
  nextFrame :: "(frame \<times> 'img) option"
  lastDecorTransformation :: mat4

text \<open>The arguments of the one \<open>screen.display\<close> call of a tick.\<close>

record 'img display_call =
  colorTransform :: mat4
  shown :: "'img texture"
  sourceWidth :: jsnum
  sourceHeight :: jsnum
  positionTransform :: mat4
  captureResolution :: "frame option"

text \<open>
  What a tick does to the outside: the draw call, the calls of the sampler (with their
  arguments) and the capture handed to the export.
\<close>

record 'img tick =
  display :: "'img display_call"
  sampled :: "('img texture \<times> mat3) list"
  saved :: "capture option"

definition initial :: "'img state" where
  "initial =
     \<lparr>texture = Placeholder,
      lastFrame = \<lparr>width = Num 1, height = Num 1\<rparr>,
      seenCamera = False,
      nextFrame = None,
      lastDecorTransformation = mat4_create\<rparr>"

text \<open>A number in a condition: zero and NaN are false.\<close>

definition truthy :: "jsnum \<Rightarrow> bool" where
  "truthy d = (d \<noteq> Num 0 \<and> \<not> isNaN d)"

text \<open>The first block of \<open>render\<close>: a pending frame is copied to the texture and claimed.\<close>

definition consume :: "'img state \<Rightarrow> 'img state" where
  "consume s =
     (case nextFrame s of
        None \<Rightarrow> s
      | Some (f, camera) \<Rightarrow>
          s\<lparr>texture := Uploaded camera, lastFrame := f, seenCamera := True, nextFrame := None\<rparr>)"

text \<open>
  The second block: position matrix, sample matrix and displayed size, from the projection
  when there is one.
\<close>

definition project :: "'img env \<Rightarrow> props \<Rightarrow> frame \<Rightarrow> mat4 \<times> mat3 \<times> jsnum \<times> jsnum" where
  "project env p lf =
     (case projection p of
        None \<Rightarrow> (mat4_create, mat3_create, width lf, height lf)
      | Some f \<Rightarrow>
          (let proj = f (jdiv (width lf) (height lf));
               positionMatrix =
                 mat4scaleThenTranslate2d env (toScreen_x proj) (toScreen_y proj) (toScreen_scale proj);
               translated =
                 mat3_translate mat3_create
                   (jadd (Num (1 / 2)) (jdiv (bounds_left proj) (imageWidth proj)),
                    jadd (Num (1 / 2)) (jdiv (bounds_top proj) (imageHeight proj)));
               widthRatio = jdiv (jsub (bounds_right proj) (bounds_left proj)) (imageWidth proj);
               heightRatio = jdiv (jsub (bounds_bottom proj) (bounds_top proj)) (imageHeight proj);
               sampleMatrix = mat3_scale translated (widthRatio, heightRatio)
           in (positionMatrix, sampleMatrix,
               jmul (width lf) widthRatio, jmul (height lf) heightRatio)))"

text \<open>
  The third block, under \<open>if (seenCamera)\<close>, \<open>if (decor)\<close>. First the transform that
  \<open>decorStretcher\<close> returns for the statistics sampled from the texture.
\<close>

definition build :: "'img env \<Rightarrow> 'img texture \<Rightarrow> mat3 \<Rightarrow> jsnum \<Rightarrow> mat4" where
  "build env tex sampleMatrix d =
     (let pixels = sample env tex sampleMatrix;
          cov = sumsToCov (sums_of pixels);
          means = means_of (sums_of pixels)
      in decorStretcher env cov means d)"

text \<open>
  Then the choice between it and the held-over transform. The result is
  \<open>decorTransformation\<close>, the new \<open>lastDecorTransformation\<close> and the sampler's calls.
\<close>

definition decorStep ::
  "'img env \<Rightarrow> props \<Rightarrow> 'img state \<Rightarrow> mat3 \<Rightarrow> mat4 \<times> mat4 \<times> ('img texture \<times> mat3) list" where
  "decorStep env p s sampleMatrix =
     (case (if seenCamera s then decor p else None) of
        None \<Rightarrow> (mat4_create, lastDecorTransformation s, [])
      | Some d \<Rightarrow>
          if truthy d then
            (let decorTransformation = build env (texture s) sampleMatrix d
             in if list_ex isNaN decorTransformation
                then (lastDecorTransformation s, lastDecorTransformation s,
                      [(texture s, sampleMatrix)])
                else (decorTransformation, decorTransformation, [(texture s, sampleMatrix)]))
          else (mat4_create, lastDecorTransformation s, []))"

text \<open>
  The fourth block: with a post transform the colour transform is the product that
  \<open>mat4.multiply\<close> forms of it and \<open>decorTransformation\<close>. The product is written into a
  fresh \<open>mat4.create()\<close>; its entries stand here as computed, before that array narrows
  them to 32 bits.
\<close>

definition compose :: "props \<Rightarrow> bool \<Rightarrow> mat4 \<Rightarrow> mat4" where
  "compose p seen decorTransformation =
     (if seen then
        (case post p of
           Some m \<Rightarrow> mat4_multiply m decorTransformation
         | None \<Rightarrow> decorTransformation)
      else mat4_create)"

definition render :: "'img env \<Rightarrow> props \<Rightarrow> 'img state \<Rightarrow> 'img tick \<times> 'img state" where
  "render env p s0 =
     (let s = consume s0 in
      case project env p (lastFrame s) of
        (positionMatrix, sampleMatrix, displayedWidth, displayedHeight) \<Rightarrow>
      case decorStep env p s sampleMatrix of
        (decorTransformation, held, calls) \<Rightarrow>
        (\<lparr>display =
            \<lparr>colorTransform = compose p (seenCamera s) decorTransformation,
             shown = texture s,
             sourceWidth = width (lastFrame s),
             sourceHeight = height (lastFrame s),
             positionTransform = positionMatrix,
             captureResolution =
               (case captureSignal p of
                  None \<Rightarrow> None
                | Some c \<Rightarrow> Some \<lparr>width = displayedWidth, height = displayedHeight\<rparr>)\<rparr>,
           sampled = calls,
           saved = captureSignal p\<rparr>,
         s\<lparr>lastDecorTransformation := held\<rparr>))"

text \<open>The sample matrix of a tick, and the transform the builder returns in it.\<close>

definition sampleMatrix_of :: "'img env \<Rightarrow> props \<Rightarrow> 'img state \<Rightarrow> mat3" where
  "sampleMatrix_of env p s0 = fst (snd (project env p (lastFrame (consume s0))))"

definition built :: "'img env \<Rightarrow> props \<Rightarrow> 'img state \<Rightarrow> jsnum \<Rightarrow> mat4" where
  "built env p s0 d = build env (texture (consume s0)) (sampleMatrix_of env p s0) d"

text \<open>
  In the spec's words the decorrelation transform is right-multiplied by the post
  transform. Read row by row, with a colour as a row vector on the left, that product is:
\<close>

definition times_rows :: "mat4 \<Rightarrow> mat4 \<Rightarrow> mat4" where
  "times_rows x y =
     concat (map (\<lambda>i. map (\<lambda>j.
         jadd (jadd (jadd (jmul (rd x (4 * i)) (rd y j)) (jmul (rd x (4 * i + 1)) (rd y (4 + j))))
                    (jmul (rd x (4 * i + 2)) (rd y (8 + j))))
              (jmul (rd x (4 * i + 3)) (rd y (12 + j))))
         [0, 1, 2, 3]) [0, 1, 2, 3])"

section \<open>The frame scheduler\<close>

text \<open>
  \<open>timestamp != lastTimestamp\<close>, where \<open>lastTimestamp\<close> starts undefined: a number differs
  from undefined, and NaN differs from every number, itself included.
\<close>

definition differs :: "jsnum \<Rightarrow> jsnum option \<Rightarrow> bool" where
  "differs timestamp lastTimestamp =
     (case lastTimestamp of
        None \<Rightarrow> True
      | Some l \<Rightarrow> isNaN timestamp \<or> isNaN l \<or> timestamp \<noteq> l)"

text \<open>
  \<open>oncePerTimestamp(f)\<close>: the closure's variable \<open>lastTimestamp\<close> is paired with the state
  \<open>f\<close> works on; the call returns what \<open>f\<close> returns, or nothing.
\<close>

definition oncePerTimestamp ::
  "(jsnum \<Rightarrow> 's \<Rightarrow> 'r \<times> 's) \<Rightarrow> jsnum \<Rightarrow> jsnum option \<times> 's \<Rightarrow> 'r option \<times> (jsnum option \<times> 's)" where
  "oncePerTimestamp f timestamp st =
     (case st of (lastTimestamp, s) \<Rightarrow>
        if differs timestamp lastTimestamp
        then (case f timestamp s of (r, s') \<Rightarrow> (Some r, (Some timestamp, s')))
        else (None, (lastTimestamp, s)))"

text \<open>A sequence of requests, each with its timestamp, from the left.\<close>

fun requests ::
  "(jsnum \<Rightarrow> 's \<Rightarrow> 'r \<times> 's) \<Rightarrow> jsnum list \<Rightarrow> jsnum option \<times> 's \<Rightarrow> jsnum option \<times> 's" where
  "requests f [] st = st"
| "requests f (t # ts) st = requests f ts (snd (oncePerTimestamp f t st))"

text \<open>The same timestamps handed to \<open>f\<close> directly, one call each.\<close>

fun calls_of :: "(jsnum \<Rightarrow> 's \<Rightarrow> 'r \<times> 's) \<Rightarrow> jsnum list \<Rightarrow> 's \<Rightarrow> 's" where
  "calls_of f [] s = s"
| "calls_of f (t # ts) s = calls_of f ts (snd (f t s))"

text \<open>A wrapped function that only records the timestamps it is invoked with.\<close>

definition record_call :: "jsnum \<Rightarrow> jsnum list \<Rightarrow> unit \<times> jsnum list" where
  "record_call t seen = ((), seen @ [t])"

definition invocations :: "jsnum list \<Rightarrow> jsnum list" where
  "invocations ts = snd (requests record_call ts (None, []))"

section \<open>The pipeline over time\<close>

text \<open>
  A camera frame arrives (\<open>onCameraFrame\<close> fills the slot \<open>nextFrame\<close>), or the browser runs
  an animation frame with a timestamp, which calls \<open>renderOnce\<close> with the props of that
  moment.
\<close>

datatype 'img event = CameraFrame frame 'img | AnimationFrame jsnum props

definition onCameraFrame :: "frame \<Rightarrow> 'img \<Rightarrow> 'img state \<Rightarrow> 'img state" where
  "onCameraFrame f camera s = s\<lparr>nextFrame := Some (f, camera)\<rparr>"

definition renderOnce ::
  "'img env \<Rightarrow> props \<Rightarrow> jsnum \<Rightarrow> jsnum option \<times> 'img state
     \<Rightarrow> 'img tick option \<times> (jsnum option \<times> 'img state)" where
  "renderOnce env p = oncePerTimestamp (\<lambda>now. render env p)"

fun step :: "'img env \<Rightarrow> 'img event \<Rightarrow> jsnum option \<times> 'img state \<Rightarrow> jsnum option \<times> 'img state" where
  "step env (CameraFrame f camera) (l, s) = (l, onCameraFrame f camera s)"
| "step env (AnimationFrame now p) (l, s) = snd (renderOnce env p now (l, s))"

fun run :: "'img env \<Rightarrow> 'img event list \<Rightarrow> jsnum option \<times> 'img state \<Rightarrow> jsnum option \<times> 'img state" where
  "run env [] st = st"
| "run env (e # es) st = run env es (step env e st)"

definition reachable :: "'img env \<Rightarrow> 'img event list \<Rightarrow> 'img state" where
  "reachable env es = snd (run env es (None, initial))"

section \<open>Initialisation of the canvas\<close>

datatype error = Error string

text \<open>
  Modelled from the spec: \<open>onError\<close> of errors.js is not among the sources. It reports the
  error to the owning application and returns; camera.js relies on that when it registers
  the next frame callback after calling it. The errors reported so far are kept in order.
\<close>

definition onError :: "error \<Rightarrow> error list \<Rightarrow> error list" where
  "onError e reported = reported @ [e]"

text \<open>
  Of the rendering context, the two extensions asked for; of the canvas node, the context
  it gives, if any.
\<close>

record gl =
  EXT_color_buffer_float :: bool
  EXT_color_buffer_half_float :: bool

record canvas =
  webgl2 :: "gl option"

definition nsamples :: nat where
  "nsamples = 1000"

text \<open>
  What the callback leaves behind when it runs to its end: the sampler it constructed
  (sample count and bit depth) and \<open>renderFrame.current\<close>, the once-per-timestamp render
  with its fresh variables.
\<close>

record 'img pipeline =
  sampler_nsamples :: nat
  sampler_bitDepth :: nat
  renderFrame :: "jsnum option \<times> 'img state"

text \<open>
  The body of the \<open>canvasRef\<close> callback, given the node and the errors reported so far. It
  returns early on a null node (\<open>Inr None\<close>), throws when there is no context (\<open>Inl\<close>), and
  otherwise runs to its end.
\<close>

definition canvasRef ::
  "canvas option \<Rightarrow> error list \<Rightarrow> (error + 'img pipeline option) \<times> error list" where
  "canvasRef node reported =
     (case node of
        None \<Rightarrow> (Inr None, reported)
      | Some c \<Rightarrow>
          (case webgl2 c of
             None \<Rightarrow> (Inl (Error ''Could not get webgl2 context''), reported)
           | Some g \<Rightarrow>
               (case (if \<not> EXT_color_buffer_float g
                      then (if EXT_color_buffer_half_float g
                            then (16, reported)
                            else (32, onError (Error ''Could not get WebGL extenstion EXT_color_buffer_float or EXT_color_buffer_half_float'') reported))
                      else (32, reported)) of
                  (bitDepth, reported') \<Rightarrow>
                    (Inr (Some \<lparr>sampler_nsamples = nsamples,
                                sampler_bitDepth = bitDepth,
                                renderFrame = (None, initial)\<rparr>),
                     reported'))))"

section \<open>The camera's frame callback\<close>

text \<open>
  The state the callback works on: the node in \<open>camera.current\<close>, whether a frame callback
  is registered with the browser, the errors reported, the state of the application that
  the frame handler works on, and the number of calls of the handler.
\<close>

record 'a watcher =
  current :: "nat option"
  registered :: bool
  reports :: "error list"
  app :: 'a
  handled :: nat

text \<open>
  A frame handler gets the time, the frame and the node, changes the application's state,
  and returns or throws.
\<close>

type_synonym 'a handler = "jsnum \<Rightarrow> frame \<Rightarrow> nat \<Rightarrow> 'a \<Rightarrow> error option \<times> 'a"

definition watch :: "'a watcher \<Rightarrow> 'a watcher" where
  "watch w = w\<lparr>registered := True\<rparr>"

definition videoFrameCallback ::
  "nat \<Rightarrow> 'a handler option \<Rightarrow> jsnum \<Rightarrow> frame \<Rightarrow> 'a watcher \<Rightarrow> 'a watcher" where
  "videoFrameCallback node frameHandler now f w =
     (if current w \<noteq> Some node then w
      else watch
        (case frameHandler of
           None \<Rightarrow> w
         | Some h \<Rightarrow>
             (case h now f node (app w) of
                (None, a) \<Rightarrow> w\<lparr>app := a, handled := Suc (handled w)\<rparr>
              | (Some e, a) \<Rightarrow>
                  w\<lparr>app := a, handled := Suc (handled w), reports := onError e (reports w)\<rparr>)))"

text \<open>\<open>camRef\<close> on a node: the node becomes current and the first callback is registered.\<close>

definition camRef :: "nat \<Rightarrow> 'a watcher \<Rightarrow> 'a watcher" where
  "camRef node w = watch (w\<lparr>current := Some node\<rparr>)"

text \<open>
  The browser delivers a frame: a registered callback is taken off and run once, with the
  handler that \<open>frameHandler.current\<close> holds at that moment; with none registered nothing runs.
\<close>

definition deliver ::
  "nat \<Rightarrow> 'a handler option \<times> jsnum \<times> frame \<Rightarrow> 'a watcher \<Rightarrow> 'a watcher" where
  "deliver node d w =
     (case d of (frameHandler, now, f) \<Rightarrow>
        if registered w then videoFrameCallback node frameHandler now f (w\<lparr>registered := False\<rparr>)
        else w)"

fun deliveries ::
  "nat \<Rightarrow> ('a handler option \<times> jsnum \<times> frame) list \<Rightarrow> 'a watcher \<Rightarrow> 'a watcher" where
  "deliveries node [] w = w"
| "deliveries node (d # ds) w = deliveries node ds (deliver node d w)"

section \<open>The decorrelation transform builder\<close>

text \<open>
  Modelled from the spec: \<open>decorStretcher\<close> of la.js is not among the sources. The spec
  has it eigendecompose the covariance into a rotation \<open>R\<close> and the variances along the
  principal axes, build a diagonal rescale from the variances and \<open>decor\<close>, compose
  \<open>R S R\<^sup>T\<close>, and translate so that the mean maps to itself. The eigendecomposition and
  the rescale of one variance are not specified and are parameters here. The 3 by 3
  matrices are lists of rows; the result is a \<open>mat4\<close>, column by column.
\<close>

definition entry :: "jsnum list list \<Rightarrow> nat \<Rightarrow> nat \<Rightarrow> jsnum" where
  "entry m i j = (if i < length m then rd (m ! i) j else NaN)"

definition stretch :: "jsnum list list \<Rightarrow> jsnum list \<Rightarrow> nat \<Rightarrow> nat \<Rightarrow> jsnum" where
  "stretch R sc i j =
     jadd (jadd (jmul (jmul (entry R i 0) (rd sc 0)) (entry R j 0))
                (jmul (jmul (entry R i 1) (rd sc 1)) (entry R j 1)))
          (jmul (jmul (entry R i 2) (rd sc 2)) (entry R j 2))"

definition linear_at :: "(nat \<Rightarrow> nat \<Rightarrow> jsnum) \<Rightarrow> vec \<Rightarrow> nat \<Rightarrow> jsnum" where
  "linear_at L m i =
     jadd (jadd (jmul (L i 0) (rd m 0)) (jmul (L i 1) (rd m 1))) (jmul (L i 2) (rd m 2))"

definition decorStretcher_spec ::
  "(jsnum list list \<Rightarrow> jsnum list list \<times> jsnum list) \<Rightarrow> (jsnum \<Rightarrow> jsnum \<Rightarrow> jsnum)
     \<Rightarrow> jsnum list list \<Rightarrow> vec \<Rightarrow> jsnum \<Rightarrow> mat4" where
  "decorStretcher_spec eigen rescale cov means d =
     (case eigen cov of (R, variances) \<Rightarrow>
        (let L = stretch R (map (rescale d) variances);
             t = (\<lambda>i. jsub (rd means i) (linear_at L means i))
         in [L 0 0, L 1 0, L 2 0, Num 0,
             L 0 1, L 1 1, L 2 1, Num 0,
             L 0 2, L 1 2, L 2 2, Num 0,
             t 0, t 1, t 2, Num 1]))"

text \<open>The colour with the three channels of a vector, as the transform is applied to it.\<close>

definition colour :: "vec \<Rightarrow> vec" where
  "colour m = [rd m 0, rd m 1, rd m 2, Num 1]"


section \<open>Notions for the statements\<close>

text \<open>Whether decorrelation is enabled in the props of a tick: the test \<open>if (decor)\<close>.\<close>

definition decor_on :: "props \<Rightarrow> bool" where
  "decor_on p = (case decor p of None \<Rightarrow> False | Some d \<Rightarrow> truthy d)"

text \<open>The value of \<open>decorTransformation\<close> when the tick composes the colour transform.\<close>

definition decorTransformation_of :: "'img env \<Rightarrow> props \<Rightarrow> 'img state \<Rightarrow> mat4" where
  "decorTransformation_of env p s0 = fst (decorStep env p (consume s0) (sampleMatrix_of env p s0))"

text \<open>The draw call of a tick.\<close>

definition drawn :: "'img env \<Rightarrow> props \<Rightarrow> 'img state \<Rightarrow> 'img display_call" where
  "drawn env p s0 = display (fst (render env p s0))"

text \<open>The held-over transform after a tick.\<close>

definition held_after :: "'img env \<Rightarrow> props \<Rightarrow> 'img state \<Rightarrow> mat4" where
  "held_after env p s0 = lastDecorTransformation (snd (render env p s0))"

section \<open>Concrete inputs\<close>

text \<open>
  Inputs on which the statements below are evaluated. The sampler returns the sums of the
  four pixels (1,0,0), (0,1,0), (1,1,0), (0,0,1). The builder stands for a
  \<open>decorStretcher\<close> whose result is a doubling of the three channels, or has a NaN entry
  (strength 2), or has an infinite entry and no NaN (strength 3).
  \<open>mat4scaleThenTranslate2d\<close> scales both axes and then translates.
\<close>

definition doubling :: mat4 where
  "doubling =
     [Num 2, Num 0, Num 0, Num 0,
      Num 0, Num 2, Num 0, Num 0,
      Num 0, Num 0, Num 2, Num 0,
      Num 0, Num 0, Num 0, Num 1]"

definition with_NaN :: mat4 where
  "with_NaN =
     [NaN, Num 0, Num 0, Num 0,
      Num 0, Num 1, Num 0, Num 0,
      Num 0, Num 0, Num 1, Num 0,
      Num 0, Num 0, Num 0, Num 1]"

definition with_infinity :: mat4 where
  "with_infinity =
     [Num 1, Num 0, Num 0, Num 0,
      PInf, Num 1, Num 0, Num 0,
      Num 0, Num 0, Num 1, Num 0,
      Num 0, Num 0, Num 0, Num 1]"

definition example_env :: "unit env" where
  "example_env =
     \<lparr>sample = (\<lambda>tex m. map Num [2, 1, 0, 2, 1, 2, 0, 2, 0, 0, 1, 1, 2, 2, 1, 4]),
      decorStretcher =
        (\<lambda>cov means d. if d = Num 2 then with_NaN else if d = Num 3 then with_infinity else doubling),
      mat4scaleThenTranslate2d =
        (\<lambda>x y s. [s, Num 0, Num 0, Num 0,
                  Num 0, s, Num 0, Num 0,
                  Num 0, Num 0, Num 1, Num 0,
                  x, y, Num 0, Num 1])\<rparr>"

definition example_props :: "jsnum option \<Rightarrow> mat4 option \<Rightarrow> props" where
  "example_props d m = \<lparr>decor = d, post = m, projection = None, captureSignal = None\<rparr>"

text \<open>A projection that shows the middle of the image at twice the size.\<close>

definition zoom :: "jsnum \<Rightarrow> projected" where
  "zoom aspect =
     \<lparr>toScreen_x = Num 0, toScreen_y = Num 0, toScreen_scale = Num 2,
      bounds_left = Num (- 1 / 4), bounds_top = Num (- 1 / 4),
      bounds_right = Num (1 / 4), bounds_bottom = Num (1 / 4),
      imageWidth = Num 1, imageHeight = Num 1\<rparr>"

definition zoom_props :: props where
  "zoom_props = \<lparr>decor = Some (Num 1), post = None, projection = Some zoom, captureSignal = None\<rparr>"

definition vga :: frame where
  "vga = \<lparr>width = Num 640, height = Num 480\<rparr>"

text \<open>The state when the first camera frame is pending.\<close>

definition first_frame :: "unit state" where
  "first_frame = onCameraFrame vga () initial"

text \<open>A canvas whose context has neither of the two extensions, one with only the half-float one.\<close>

definition bare_canvas :: canvas where
  "bare_canvas =
     \<lparr>webgl2 = Some \<lparr>EXT_color_buffer_float = False, EXT_color_buffer_half_float = False\<rparr>\<rparr>"

definition half_canvas :: canvas where
  "half_canvas =
     \<lparr>webgl2 = Some \<lparr>EXT_color_buffer_float = False, EXT_color_buffer_half_float = True\<rparr>\<rparr>"

text \<open>
  A frame handler that counts the frames in the application's state and then throws, and
  a watcher before \<open>camRef\<close> has run.
\<close>

definition thrower :: "nat handler" where
  "thrower now f node a = (Some (Error ''frame handler failed''), Suc a)"

definition idle_watcher :: "nat watcher" where
  "idle_watcher = \<lparr>current = None, registered = False, reports = [], app = 0, handled = 0\<rparr>"

text \<open>
  For a covariance that is already diagonal: the eigendecomposition with the identity as
  rotation and the diagonal as variances, and a rescale that divides the strength by the
  variance.
\<close>

definition axis_eigen :: "jsnum list list \<Rightarrow> jsnum list list \<times> jsnum list" where
  "axis_eigen cov =
     ([[Num 1, Num 0, Num 0], [Num 0, Num 1, Num 0], [Num 0, Num 0, Num 1]],
      [entry cov 0 0, entry cov 1 1, entry cov 2 2])"

definition ratio_rescale :: "jsnum \<Rightarrow> jsnum \<Rightarrow> jsnum" where
  "ratio_rescale d v = jdiv d v"

definition diagonal_cov :: "jsnum list list" where
  "diagonal_cov = [[Num 1, Num 0, Num 0], [Num 0, Num 4, Num 0], [Num 0, Num 0, Num 8]]"

section \<open>Facts about the numbers\<close>

lemma jmul_commute: "jmul a b = jmul b a"
  by (cases a; cases b) (simp_all add: mult.commute)

lemma rd_in_range: "i < length xs \<Longrightarrow> rd xs i = xs ! i"
  by (simp add: rd_def)

section \<open>The covariance and mean extractor\<close>

lemma sumsToCov_entry:
  assumes "i < 3" "j < 3"
  shows "sumsToCov s ! i ! j =
     jdiv (jsub (s i j) (jdiv (jmul (s i 3) (s 3 j)) (s 3 3))) (jsub (s 3 3) (Num 1))"
  using assms by (simp add: sumsToCov_def matrixFrom_def Let_def)

lemma means_of_entry:
  assumes "i < 3"
  shows "means_of s ! i = jdiv (s i 3) (s 3 3)"
proof -
  from assms consider "i = 0" | "i = 1" | "i = 2" by linarith
  then show ?thesis by cases (simp_all add: means_of_def)
qed

text \<open>
  C3. For sums \<open>S\<close> read back from the sampler whose count \<open>n = S[3][3]\<close> is a finite number
  above 1, the mean is \<open>S[i][3] / n\<close> and the covariance entry is
  \<open>(S[i][j] - S[i][3] * S[3][j] / n) / (n - 1)\<close> for \<open>i, j\<close> in 0..2, in the arithmetic of
  the program; on finite sums these are the real quotients; and when \<open>S\<close> is symmetric so is
  the covariance. The extractor is a function of \<open>S\<close> alone and changes nothing.
\<close>

theorem sumsToCov_formula:
  assumes n: "sums_of S 3 3 = Num n" "1 < n"
    and i: "i < 3" and j: "j < 3"
  shows "means_of (sums_of S) ! i = jdiv (sums_of S i 3) (Num n)
       \<and> sumsToCov (sums_of S) ! i ! j =
           jdiv (jsub (sums_of S i j) (jdiv (jmul (sums_of S i 3) (sums_of S 3 j)) (Num n)))
                (Num (n - 1))
       \<and> (sums_of S i j = Num x \<and> sums_of S i 3 = Num y \<and> sums_of S 3 j = Num z \<longrightarrow>
            means_of (sums_of S) ! i = Num (y / n)
          \<and> sumsToCov (sums_of S) ! i ! j = Num ((x - y * z / n) / (n - 1)))
       \<and> ((\<forall>a<4. \<forall>b<4. sums_of S a b = sums_of S b a) \<longrightarrow>
            sumsToCov (sums_of S) ! i ! j = sumsToCov (sums_of S) ! j ! i)"
proof -
  have n0: "n \<noteq> 0" "n - 1 \<noteq> 0" using n by auto
  have m: "means_of (sums_of S) ! i = jdiv (sums_of S i 3) (Num n)"
    using i by (simp add: means_of_entry n)
  have c: "sumsToCov (sums_of S) ! a ! b =
      jdiv (jsub (sums_of S a b) (jdiv (jmul (sums_of S a 3) (sums_of S 3 b)) (Num n)))
           (Num (n - 1))"
    if "a < 3" "b < 3" for a b
    using that by (simp add: sumsToCov_entry n jsub_def)
  have f: "means_of (sums_of S) ! i = Num (y / n)
         \<and> sumsToCov (sums_of S) ! i ! j = Num ((x - y * z / n) / (n - 1))"
    if "sums_of S i j = Num x \<and> sums_of S i 3 = Num y \<and> sums_of S 3 j = Num z"
    using that n0 by (simp add: m c[OF i j] jsub_def)
  have s: "sumsToCov (sums_of S) ! i ! j = sumsToCov (sums_of S) ! j ! i"
    if sym: "\<forall>a<4. \<forall>b<4. sums_of S a b = sums_of S b a"
  proof -
    have "sums_of S i j = sums_of S j i" "sums_of S i 3 = sums_of S 3 i"
      "sums_of S 3 j = sums_of S j 3"
      using sym i j by auto
    then show ?thesis using i j by (simp add: c jmul_commute)
  qed
  show ?thesis using m c[OF i j] f s by blast
qed

text \<open>
  The sums of the four pixels (1,0,0), (0,1,0), (1,1,0) and (0,0,1): the mean of the first
  channel is 1/2 and its covariance with the third is -1/6, either way round.
\<close>

theorem sumsToCov_formula_witness:
  "sums_of (map Num [2, 1, 0, 2, 1, 2, 0, 2, 0, 0, 1, 1, 2, 2, 1, 4]) 3 3 = Num 4
   \<and> (1::real) < 4
   \<and> means_of (sums_of (map Num [2, 1, 0, 2, 1, 2, 0, 2, 0, 0, 1, 1, 2, 2, 1, 4])) ! 0
       = Num (1 / 2)
   \<and> sumsToCov (sums_of (map Num [2, 1, 0, 2, 1, 2, 0, 2, 0, 0, 1, 1, 2, 2, 1, 4])) ! 0 ! 2
       = Num (- 1 / 6)
   \<and> sumsToCov (sums_of (map Num [2, 1, 0, 2, 1, 2, 0, 2, 0, 0, 1, 1, 2, 2, 1, 4])) ! 2 ! 0
       = Num (- 1 / 6)"
proof -
  let ?S = "map Num [2, 1, 0, 2, 1, 2, 0, 2, 0, 0, 1, 1, 2, 2, 1, 4]"
  have n: "sums_of ?S 3 3 = Num 4" by (simp add: sums_of_def rd_def)
  have v: "sums_of ?S 0 2 = Num 0 \<and> sums_of ?S 0 3 = Num 2 \<and> sums_of ?S 3 2 = Num 1"
    by (simp add: sums_of_def rd_def)
  have sym: "\<forall>a<4. \<forall>b<4. sums_of ?S a b = sums_of ?S b a"
  proof (intro allI impI)
    fix a b :: nat
    assume "a < 4" "b < 4"
    then have "a \<in> {0, 1, 2, 3}" "b \<in> {0, 1, 2, 3}" by auto
    then show "sums_of ?S a b = sums_of ?S b a"
      by (auto simp: sums_of_def rd_def)
  qed
  have "(1::real) < 4" "(0::nat) < 3" "(2::nat) < 3" by simp_all
  note T = sumsToCov_formula [OF n this, of 0 2 1]
  have m: "means_of (sums_of ?S) ! 0 = Num (1 / 2)"
    using T v by simp
  have c: "sumsToCov (sums_of ?S) ! 0 ! 2 = Num (- 1 / 6)"
    using T v by (simp add: jsub_def)
  have "sumsToCov (sums_of ?S) ! 0 ! 2 = sumsToCov (sums_of ?S) ! 2 ! 0"
    using T sym by blast
  with c have c2: "sumsToCov (sums_of ?S) ! 2 ! 0 = Num (- 1 / 6)"
    by simp
  from n m c c2 show ?thesis by simp
qed

section \<open>The scheduler's deduplication\<close>

lemma calls_of_head:
  "calls_of f (remdups_adj (t # ts)) s = calls_of f (tl (remdups_adj (t # ts))) (snd (f t s))"
proof -
  have "remdups_adj (t # ts) = t # tl (remdups_adj (t # ts))"
    by (cases ts) auto
  then show ?thesis
    by (metis calls_of.simps(2))
qed

lemma requests_after:
  assumes "\<not> isNaN l" "\<not> list_ex isNaN ts"
  shows "requests f ts (Some l, s) = (Some (last (l # ts)), calls_of f (tl (remdups_adj (l # ts))) s)"
  using assms
proof (induction ts arbitrary: l s)
  case Nil
  then show ?case by simp
next
  case (Cons t ts)
  show ?case
  proof (cases "t = l")
    case True
    with Cons show ?thesis
      by (simp add: oncePerTimestamp_def differs_def)
  next
    case False
    with Cons show ?thesis
      by (simp add: oncePerTimestamp_def differs_def calls_of_head split: prod.splits)
  qed
qed

lemma requests_first:
  assumes "\<not> list_ex isNaN ts"
  shows "snd (requests f ts (None, s)) = calls_of f (remdups_adj ts) s"
proof (cases ts)
  case Nil
  then show ?thesis by simp
next
  case (Cons t us)
  have "calls_of f (remdups_adj (t # us)) s = calls_of f (tl (remdups_adj (t # us))) (snd (f t s))"
    by (rule calls_of_head)
  moreover have "requests f (t # us) (None, s) = requests f us (Some t, snd (f t s))"
    by (simp add: oncePerTimestamp_def differs_def split: prod.splits)
  ultimately show ?thesis
    using assms Cons by (simp add: requests_after)
qed

lemma calls_of_record: "calls_of record_call ts seen = seen @ ts"
  by (induction ts arbitrary: seen) (simp_all add: record_call_def)

text \<open>
  C4, as the code has it. The wrapper remembers the last timestamp only, so over any
  sequence of requests with numeric timestamps the wrapped function runs once for each run
  of consecutive requests with the same timestamp, in order: the state it leaves is the one
  of calling it on the timestamps with adjacent repetitions removed. Two requests with the
  same timestamp give one invocation and two with different timestamps give two.
\<close>

theorem oncePerTimestamp_adjacent:
  assumes "\<not> list_ex isNaN ts"
  shows "snd (requests f ts (None, s)) = calls_of f (remdups_adj ts) s
       \<and> invocations ts = remdups_adj ts
       \<and> (ts = [t, t] \<longrightarrow> invocations ts = [t])
       \<and> (ts = [t, u] \<and> t \<noteq> u \<longrightarrow> invocations ts = [t, u])"
proof -
  have a: "snd (requests f ts (None, s)) = calls_of f (remdups_adj ts) s"
    using assms by (rule requests_first)
  have b: "invocations ts = remdups_adj ts"
    using assms by (simp add: invocations_def requests_first calls_of_record)
  show ?thesis using a b by auto
qed

theorem oncePerTimestamp_adjacent_witness:
  "\<not> list_ex isNaN [Num 1, Num 1, Num 2]
   \<and> invocations [Num 1, Num 1, Num 2] = [Num 1, Num 2]
   \<and> invocations [Num 1, Num 1] = [Num 1]
   \<and> invocations [Num 1, Num 2] = [Num 1, Num 2]"
proof -
  have "invocations [Num 1, Num 1, Num 2] = [Num 1, Num 2]"
    using oncePerTimestamp_adjacent [where ts = "[Num 1, Num 1, Num 2]" and f = record_call and s = "[]"] by simp
  moreover have "invocations [Num 1, Num 1] = [Num 1]"
    using oncePerTimestamp_adjacent [where ts = "[Num 1, Num 1]" and f = record_call and s = "[]"] by simp
  moreover have "invocations [Num 1, Num 2] = [Num 1, Num 2]"
    using oncePerTimestamp_adjacent [where ts = "[Num 1, Num 2]" and f = record_call and s = "[]"] by simp
  ultimately show ?thesis by simp
qed

text \<open>
  C4 as stated fails: a timestamp that comes back after a different one is processed
  again. Of the three requests with timestamps 1, 2, 1 all three reach the wrapped function,
  two of them with timestamp 1.
\<close>

theorem oncePerTimestamp_recurring_counterexample:
  "invocations [Num 1, Num 2, Num 1] = [Num 1, Num 2, Num 1]
   \<and> count_list (invocations [Num 1, Num 2, Num 1]) (Num 1) = 2"
  by (simp add: invocations_def oncePerTimestamp_def differs_def record_call_def)


section \<open>One tick of the compositor\<close>

lemma consume_held [simp]: "lastDecorTransformation (consume s) = lastDecorTransformation s"
  by (simp add: consume_def split: option.splits prod.splits)

lemma consume_idle: "nextFrame s = None \<Longrightarrow> consume s = s"
  by (simp add: consume_def)

lemma drawn_colour:
  "colorTransform (drawn env p s0) =
     compose p (seenCamera (consume s0)) (decorTransformation_of env p s0)"
  by (simp add: drawn_def render_def decorTransformation_of_def sampleMatrix_of_def Let_def
      split: prod.splits)

lemma drawn_position:
  "positionTransform (drawn env p s0) = fst (project env p (lastFrame (consume s0)))"
  by (simp add: drawn_def render_def Let_def split: prod.splits)

lemma drawn_source:
  "sourceWidth (drawn env p s0) = width (lastFrame (consume s0))"
  "sourceHeight (drawn env p s0) = height (lastFrame (consume s0))"
  "shown (drawn env p s0) = texture (consume s0)"
  by (simp_all add: drawn_def render_def Let_def split: prod.splits)

lemma held_after_step:
  "held_after env p s0 = fst (snd (decorStep env p (consume s0) (sampleMatrix_of env p s0)))"
  by (simp add: held_after_def render_def sampleMatrix_of_def Let_def split: prod.splits)

lemma sampled_step:
  "sampled (fst (render env p s0)) = snd (snd (decorStep env p (consume s0) (sampleMatrix_of env p s0)))"
  by (simp add: render_def sampleMatrix_of_def Let_def split: prod.splits)

lemma render_rest:
  "seenCamera (snd (render env p s0)) = seenCamera (consume s0)"
  "lastFrame (snd (render env p s0)) = lastFrame (consume s0)"
  "texture (snd (render env p s0)) = texture (consume s0)"
  "nextFrame (snd (render env p s0)) = None"
  by (simp_all add: render_def Let_def consume_def split: prod.splits option.splits)

lemma decorStep_on:
  assumes "seenCamera s" "decor p = Some d" "truthy d"
  shows "decorStep env p s m =
     (if list_ex isNaN (build env (texture s) m d)
      then (lastDecorTransformation s, lastDecorTransformation s, [(texture s, m)])
      else (build env (texture s) m d, build env (texture s) m d, [(texture s, m)]))"
  using assms by (simp add: decorStep_def Let_def)

lemma decorStep_off:
  assumes "\<not> seenCamera s \<or> \<not> decor_on p"
  shows "decorStep env p s m = (mat4_create, lastDecorTransformation s, [])"
  using assms by (auto simp: decorStep_def decor_on_def split: option.splits)

text \<open>
  C1, as the code has it. The test on the built transform is \<open>some(isNaN)\<close>. In a tick
  with a frame seen and decorrelation enabled: when the transform the builder returns has a
  NaN entry, the decorrelation transform of the tick is the held-over one, the draw call's
  colour transform is composed from it, and the held-over transform stays as it was; when
  it has no NaN entry, it is the decorrelation transform of the tick and becomes the
  held-over transform.
\<close>

theorem render_holds_on_NaN:
  assumes "seenCamera (consume s0)" "decor p = Some d" "truthy d"
  shows "(list_ex isNaN (built env p s0 d) \<longrightarrow>
            decorTransformation_of env p s0 = lastDecorTransformation s0
          \<and> colorTransform (drawn env p s0) = compose p True (lastDecorTransformation s0)
          \<and> held_after env p s0 = lastDecorTransformation s0)
       \<and> (\<not> list_ex isNaN (built env p s0 d) \<longrightarrow>
            decorTransformation_of env p s0 = built env p s0 d
          \<and> colorTransform (drawn env p s0) = compose p True (built env p s0 d)
          \<and> held_after env p s0 = built env p s0 d)"
  using assms
  by (simp add: drawn_colour held_after_step decorTransformation_of_def decorStep_on built_def)


lemma example_build:
  "build example_env tex m d =
     (if d = Num 2 then with_NaN else if d = Num 3 then with_infinity else doubling)"
  by (simp add: build_def example_env_def Let_def)

lemma first_frame_consumed:
  "consume first_frame =
     \<lparr>texture = Uploaded (), lastFrame = vga, seenCamera = True, nextFrame = None,
      lastDecorTransformation = mat4_create\<rparr>"
  by (simp add: first_frame_def onCameraFrame_def initial_def consume_def)

lemma first_frame_held: "lastDecorTransformation first_frame = mat4_create"
  by (simp add: first_frame_def onCameraFrame_def initial_def)

lemma snd_oncePerTimestamp:
  "snd (oncePerTimestamp f t (l, s)) = (if differs t l then (Some t, snd (f t s)) else (l, s))"
  by (simp add: oncePerTimestamp_def split: prod.splits)

lemma render_first_frame:
  "snd (render example_env (example_props (Some (Num 1)) None) first_frame) =
     \<lparr>texture = Uploaded (), lastFrame = vga, seenCamera = True, nextFrame = None,
      lastDecorTransformation = doubling\<rparr>"
  by (simp add: render_def first_frame_consumed project_def example_props_def decorStep_def
      truthy_def example_build doubling_def Let_def)

theorem render_holds_on_NaN_witness:
  "seenCamera (consume (snd (render example_env (example_props (Some (Num 1)) None) first_frame)))
   \<and> truthy (Num 2)
   \<and> list_ex isNaN (built example_env (example_props (Some (Num 2)) None)
        (snd (render example_env (example_props (Some (Num 1)) None) first_frame)) (Num 2))
   \<and> colorTransform (drawn example_env (example_props (Some (Num 2)) None)
        (snd (render example_env (example_props (Some (Num 1)) None) first_frame))) = doubling
   \<and> held_after example_env (example_props (Some (Num 2)) None)
        (snd (render example_env (example_props (Some (Num 1)) None) first_frame)) = doubling
   \<and> \<not> list_ex isNaN (built example_env (example_props (Some (Num 1)) None) first_frame (Num 1))
   \<and> held_after example_env (example_props (Some (Num 1)) None) first_frame = doubling"
proof -
  let ?s1 = "snd (render example_env (example_props (Some (Num 1)) None) first_frame)"
  have seen: "seenCamera (consume ?s1)"
    by (simp add: render_first_frame consume_def)
  have d: "decor (example_props (Some (Num 2)) None) = Some (Num 2)" "truthy (Num 2)"
    by (simp_all add: example_props_def truthy_def)
  have b: "list_ex isNaN (built example_env (example_props (Some (Num 2)) None) ?s1 (Num 2))"
    by (simp add: built_def example_build with_NaN_def)
  have h: "lastDecorTransformation ?s1 = doubling"
    by (simp add: render_first_frame)
  have post: "compose (example_props (Some (Num 2)) None) True doubling = doubling"
    by (simp add: compose_def example_props_def)
  have seen0: "seenCamera (consume first_frame)"
    by (simp add: first_frame_consumed)
  have d0: "decor (example_props (Some (Num 1)) None) = Some (Num 1)" "truthy (Num 1)"
    by (simp_all add: example_props_def truthy_def)
  have b0: "built example_env (example_props (Some (Num 1)) None) first_frame (Num 1) = doubling"
    by (simp add: built_def example_build)
  have n0: "\<not> list_ex isNaN doubling"
    by (simp add: doubling_def)
  from render_holds_on_NaN [OF seen d, of example_env] b h post
  have "colorTransform (drawn example_env (example_props (Some (Num 2)) None) ?s1) = doubling"
    "held_after example_env (example_props (Some (Num 2)) None) ?s1 = doubling"
    by simp_all
  moreover from render_holds_on_NaN [OF seen0 d0, of example_env] b0 n0
  have "held_after example_env (example_props (Some (Num 1)) None) first_frame = doubling"
    by simp
  ultimately show ?thesis using seen d b b0 n0 by simp
qed

text \<open>
  C1 as stated fails for an entry that is infinite: a built transform with an infinity and
  no NaN is not finite, yet it is drawn and replaces the held-over transform.
\<close>

theorem render_keeps_infinity_counterexample:
  "seenCamera (consume first_frame)
   \<and> decor_on (example_props (Some (Num 3)) None)
   \<and> \<not> list_all isFinite (built example_env (example_props (Some (Num 3)) None) first_frame (Num 3))
   \<and> colorTransform (drawn example_env (example_props (Some (Num 3)) None) first_frame)
       \<noteq> lastDecorTransformation first_frame
   \<and> held_after example_env (example_props (Some (Num 3)) None) first_frame
       \<noteq> lastDecorTransformation first_frame"
  by (simp add: first_frame_consumed decor_on_def example_props_def truthy_def built_def
      example_build with_infinity_def drawn_colour held_after_step decorTransformation_of_def
      decorStep_def compose_def Let_def first_frame_held mat4_create_def)

section \<open>The held-over transform over time\<close>

lemma held_after_cases:
  "held_after env p s = lastDecorTransformation s
   \<or> \<not> list_ex isNaN (held_after env p s)"
  by (auto simp: held_after_step decorStep_def Let_def split: option.splits)

lemma step_no_NaN:
  assumes "\<not> list_ex isNaN (lastDecorTransformation (snd st))"
  shows "\<not> list_ex isNaN (lastDecorTransformation (snd (step env e st)))"
proof (cases st)
  case (Pair l s)
  show ?thesis
  proof (cases e)
    case (CameraFrame f camera)
    with Pair assms show ?thesis by (simp add: onCameraFrame_def)
  next
    case (AnimationFrame now p)
    show ?thesis
    proof (cases "differs now l")
      case True
      have "lastDecorTransformation (snd (step env e st)) = held_after env p s"
        using True Pair AnimationFrame
        by (simp add: renderOnce_def oncePerTimestamp_def held_after_def split: prod.splits)
      then show ?thesis
        using held_after_cases [of env p s] assms Pair by auto
    next
      case False
      then show ?thesis
        using Pair AnimationFrame assms by (simp add: renderOnce_def oncePerTimestamp_def)
    qed
  qed
qed

lemma run_no_NaN:
  assumes "\<not> list_ex isNaN (lastDecorTransformation (snd st))"
  shows "\<not> list_ex isNaN (lastDecorTransformation (snd (run env es st)))"
  using assms
proof (induction es arbitrary: st)
  case Nil
  then show ?case by simp
next
  case (Cons e es)
  then show ?case by (simp add: step_no_NaN)
qed

text \<open>
  C2, as the code has it. The held-over transform is the identity at the start; after any
  sequence of camera frames and animation frames none of its entries is NaN; and a tick
  whose built transform has a NaN entry leaves it as it was, whatever it was.
\<close>

theorem held_never_NaN:
  "lastDecorTransformation (reachable env []) = mat4_create
   \<and> \<not> list_ex isNaN (lastDecorTransformation (reachable env es))
   \<and> (seenCamera (consume (reachable env es)) \<and> decor p = Some d \<and> truthy d
        \<and> list_ex isNaN (built env p (reachable env es) d) \<longrightarrow>
          held_after env p (reachable env es) = lastDecorTransformation (reachable env es))"
proof -
  have a: "lastDecorTransformation (reachable env []) = mat4_create"
    by (simp add: reachable_def initial_def)
  have "\<not> list_ex isNaN (lastDecorTransformation (snd (None :: jsnum option, initial :: 'a state)))"
    by (simp add: initial_def mat4_create_def)
  then have b: "\<not> list_ex isNaN (lastDecorTransformation (reachable env es))"
    unfolding reachable_def by (rule run_no_NaN)
  have c: "held_after env p (reachable env es) = lastDecorTransformation (reachable env es)"
    if "seenCamera (consume (reachable env es)) \<and> decor p = Some d \<and> truthy d
        \<and> list_ex isNaN (built env p (reachable env es) d)"
    using that by (simp add: held_after_step decorStep_on built_def)
  show ?thesis using a b c by blast
qed

lemma reachable_example:
  "reachable example_env [CameraFrame vga (), AnimationFrame (Num 0) (example_props (Some (Num 1)) None)]
     = \<lparr>texture = Uploaded (), lastFrame = vga, seenCamera = True, nextFrame = None,
        lastDecorTransformation = doubling\<rparr>"
  using render_first_frame
  by (simp add: reachable_def renderOnce_def snd_oncePerTimestamp differs_def first_frame_def)

theorem held_never_NaN_witness:
  "seenCamera (consume (reachable example_env
      [CameraFrame vga (), AnimationFrame (Num 0) (example_props (Some (Num 1)) None)]))
   \<and> truthy (Num 2)
   \<and> list_ex isNaN (built example_env (example_props (Some (Num 2)) None) (reachable example_env
      [CameraFrame vga (), AnimationFrame (Num 0) (example_props (Some (Num 1)) None)]) (Num 2))
   \<and> held_after example_env (example_props (Some (Num 2)) None) (reachable example_env
      [CameraFrame vga (), AnimationFrame (Num 0) (example_props (Some (Num 1)) None)]) = doubling
   \<and> doubling \<noteq> mat4_create
   \<and> \<not> list_ex isNaN doubling"
proof -
  let ?es = "[CameraFrame vga (), AnimationFrame (Num 0) (example_props (Some (Num 1)) None)]"
  let ?p = "example_props (Some (Num 2)) None"
  have seen: "seenCamera (consume (reachable example_env ?es))"
    by (simp add: reachable_example consume_def)
  have d: "decor ?p = Some (Num 2)" "truthy (Num 2)"
    by (simp_all add: example_props_def truthy_def)
  have b: "list_ex isNaN (built example_env ?p (reachable example_env ?es) (Num 2))"
    by (simp add: built_def example_build with_NaN_def)
  have h: "lastDecorTransformation (reachable example_env ?es) = doubling"
    by (simp add: reachable_example)
  from held_never_NaN [of example_env ?es ?p "Num 2"] seen d b h
  have "held_after example_env ?p (reachable example_env ?es) = doubling"
    "\<not> list_ex isNaN doubling"
    by simp_all
  moreover have "doubling \<noteq> mat4_create"
    by (simp add: doubling_def mat4_create_def)
  ultimately show ?thesis using seen d b by simp
qed

text \<open>
  C2 as stated fails: after one frame and one tick whose built transform has an infinite
  entry and no NaN, the held-over transform has an entry that is not finite.
\<close>

theorem held_infinite_counterexample:
  "\<not> list_all isFinite (lastDecorTransformation (reachable example_env
      [CameraFrame vga (), AnimationFrame (Num 0) (example_props (Some (Num 3)) None)]))"
  by (simp add: reachable_def renderOnce_def snd_oncePerTimestamp differs_def render_def
      onCameraFrame_def initial_def consume_def project_def example_props_def decorStep_def
      truthy_def example_build with_infinity_def Let_def)


section \<open>Finite matrices\<close>

lemma isFinite_Num: "isFinite x \<Longrightarrow> \<exists>r. x = Num r"
  by (cases x) auto

lemma finite_list: "list_all isFinite xs \<Longrightarrow> \<exists>rs. xs = map Num rs"
proof (induction xs)
  case Nil
  then show ?case by simp
next
  case (Cons x xs)
  from Cons.prems have "isFinite x" "list_all isFinite xs" by simp_all
  then obtain r rs where "x = Num r" "xs = map Num rs"
    using isFinite_Num Cons.IH by blast
  then have "x # xs = map Num (r # rs)" by simp
  then show ?case by (rule exI)
qed

lemma length4: "length (xs :: real list) = 4 \<Longrightarrow> \<exists>a b c d. xs = [a, b, c, d]"
  by (auto simp: length_Suc_conv eval_nat_numeral)

lemma length16:
  assumes "length (xs :: real list) = 16"
  shows "\<exists>a b c d. xs = a @ b @ c @ d \<and> length a = 4 \<and> length b = 4 \<and> length c = 4 \<and> length d = 4"
proof -
  let ?a = "take 4 xs" and ?b = "take 4 (drop 4 xs)" and ?c = "take 4 (drop 8 xs)"
    and ?d = "drop 12 xs"
  have "?c @ ?d = drop 8 xs"
    using append_take_drop_id [of 4 "drop 8 xs"] by simp
  moreover have "?b @ drop 8 xs = drop 4 xs"
    using append_take_drop_id [of 4 "drop 4 xs"] by simp
  moreover have "?a @ drop 4 xs = xs"
    by simp
  ultimately have "xs = ?a @ ?b @ ?c @ ?d" by simp
  moreover have "length ?a = 4" "length ?b = 4" "length ?c = 4" "length ?d = 4"
    using assms by simp_all
  ultimately show ?thesis by blast
qed

lemma finite_mat16:
  assumes "finite_mat 16 m"
  shows "\<exists>a0 a1 a2 a3 b0 b1 b2 b3 c0 c1 c2 c3 d0 d1 d2 d3.
     m = [Num a0, Num a1, Num a2, Num a3, Num b0, Num b1, Num b2, Num b3,
          Num c0, Num c1, Num c2, Num c3, Num d0, Num d1, Num d2, Num d3]"
proof -
  from assms obtain rs where rs: "m = map Num rs" "length rs = 16"
    using finite_list by (fastforce simp: finite_mat_def)
  from length16 [OF rs(2)] obtain a b c d where
    "rs = a @ b @ c @ d" "length a = 4" "length b = 4" "length c = 4" "length d = 4"
    by blast
  moreover from this obtain a0 a1 a2 a3 b0 b1 b2 b3 c0 c1 c2 c3 d0 d1 d2 d3 where
    "a = [a0, a1, a2, a3]" "b = [b0, b1, b2, b3]" "c = [c0, c1, c2, c3]" "d = [d0, d1, d2, d3]"
    using length4 by metis
  ultimately have "m = [Num a0, Num a1, Num a2, Num a3, Num b0, Num b1, Num b2, Num b3,
          Num c0, Num c1, Num c2, Num c3, Num d0, Num d1, Num d2, Num d3]"
    using rs(1) by simp
  then show ?thesis by blast
qed

lemma finite_mat4:
  assumes "finite_mat 4 v"
  shows "\<exists>a b c d. v = [Num a, Num b, Num c, Num d]"
proof -
  from assms obtain rs where rs: "v = map Num rs" "length rs = 4"
    using finite_list by (fastforce simp: finite_mat_def)
  from length4 [OF rs(2)] rs(1) show ?thesis by auto
qed

lemma multiply_as_rows: "mat4_multiply a b = times_rows b a"
  by (simp add: mat4_multiply_def mul_line_def times_rows_def)

lemma transform_product:
  assumes "finite_mat 16 m" "finite_mat 16 n" "finite_mat 4 v"
  shows "transformMat4 (mat4_multiply m n) v = transformMat4 m (transformMat4 n v)"
proof -
  from finite_mat16 [OF assms(1)] obtain a0 a1 a2 a3 b0 b1 b2 b3 c0 c1 c2 c3 d0 d1 d2 d3 where
    m: "m = [Num a0, Num a1, Num a2, Num a3, Num b0, Num b1, Num b2, Num b3,
          Num c0, Num c1, Num c2, Num c3, Num d0, Num d1, Num d2, Num d3]"
    by blast
  from finite_mat16 [OF assms(2)] obtain e0 e1 e2 e3 f0 f1 f2 f3 g0 g1 g2 g3 h0 h1 h2 h3 where
    n: "n = [Num e0, Num e1, Num e2, Num e3, Num f0, Num f1, Num f2, Num f3,
          Num g0, Num g1, Num g2, Num g3, Num h0, Num h1, Num h2, Num h3]"
    by blast
  from finite_mat4 [OF assms(3)] obtain x y z w where v: "v = [Num x, Num y, Num z, Num w]"
    by blast
  show ?thesis
    unfolding m n v
    by (simp add: mat4_multiply_def mul_line_def transformMat4_def rd_def algebra_simps)
qed


section \<open>Before the first frame\<close>

lemma step_unseen:
  assumes "\<not> seenCamera (snd st) \<longrightarrow>
             lastFrame (snd st) = \<lparr>width = Num 1, height = Num 1\<rparr> \<and> texture (snd st) = Placeholder"
  shows "\<not> seenCamera (snd (step env e st)) \<longrightarrow>
             lastFrame (snd (step env e st)) = \<lparr>width = Num 1, height = Num 1\<rparr>
           \<and> texture (snd (step env e st)) = Placeholder"
proof (cases st)
  case (Pair l s)
  show ?thesis
  proof (cases e)
    case (CameraFrame f camera)
    with Pair assms show ?thesis by (simp add: onCameraFrame_def)
  next
    case (AnimationFrame now p)
    have "seenCamera (consume s) \<or> consume s = s"
      by (auto simp: consume_def split: option.splits)
    then show ?thesis
      using Pair AnimationFrame assms
      by (auto simp: renderOnce_def snd_oncePerTimestamp render_rest)
  qed
qed

lemma run_unseen:
  assumes "\<not> seenCamera (snd st) \<longrightarrow>
             lastFrame (snd st) = \<lparr>width = Num 1, height = Num 1\<rparr> \<and> texture (snd st) = Placeholder"
  shows "\<not> seenCamera (snd (run env es st)) \<longrightarrow>
             lastFrame (snd (run env es st)) = \<lparr>width = Num 1, height = Num 1\<rparr>
           \<and> texture (snd (run env es st)) = Placeholder"
  using assms
proof (induction es arbitrary: st)
  case Nil
  then show ?case by simp
next
  case (Cons e es)
  have "\<not> seenCamera (snd (run env es (step env e st))) \<longrightarrow>
          lastFrame (snd (run env es (step env e st))) = \<lparr>width = Num 1, height = Num 1\<rparr>
        \<and> texture (snd (run env es (step env e st))) = Placeholder"
    by (rule Cons.IH) (rule step_unseen [OF Cons.prems])
  then show ?case by simp
qed

lemma reachable_unseen:
  assumes "\<not> seenCamera (reachable env es)"
  shows "lastFrame (reachable env es) = \<lparr>width = Num 1, height = Num 1\<rparr>"
    and "texture (reachable env es) = Placeholder"
proof -
  have "\<not> seenCamera (snd (None :: jsnum option, initial :: 'a state)) \<longrightarrow>
          lastFrame (snd (None :: jsnum option, initial :: 'a state)) = \<lparr>width = Num 1, height = Num 1\<rparr>
        \<and> texture (snd (None :: jsnum option, initial :: 'a state)) = Placeholder"
    by (simp add: initial_def)
  from run_unseen [OF this, of env es] assms
  show "lastFrame (reachable env es) = \<lparr>width = Num 1, height = Num 1\<rparr>"
    and "texture (reachable env es) = Placeholder"
    by (simp_all add: reachable_def)
qed

text \<open>
  C5, as the code has it. In a tick before the first camera frame has been consumed (no
  frame seen so far and none pending), whatever the props: the sampler is not called, the
  draw call gets the identity colour transform, the placeholder texture and the 1 by 1
  frame dimensions. Its position transform is the identity when no projection is supplied;
  with a projection it is \<open>mat4scaleThenTranslate2d\<close> of the placement that the projection
  returns for the aspect ratio 1.
\<close>

theorem before_first_frame:
  assumes "\<not> seenCamera (reachable env es)" "nextFrame (reachable env es) = None"
  shows "sampled (fst (render env p (reachable env es))) = []
       \<and> colorTransform (drawn env p (reachable env es)) = mat4_create
       \<and> shown (drawn env p (reachable env es)) = Placeholder
       \<and> sourceWidth (drawn env p (reachable env es)) = Num 1
       \<and> sourceHeight (drawn env p (reachable env es)) = Num 1
       \<and> (projection p = None \<longrightarrow>
            positionTransform (drawn env p (reachable env es)) = mat4_create)
       \<and> (projection p = Some f \<longrightarrow>
            positionTransform (drawn env p (reachable env es)) =
              mat4scaleThenTranslate2d env (toScreen_x (f (Num 1))) (toScreen_y (f (Num 1)))
                (toScreen_scale (f (Num 1))))"
proof -
  let ?s = "reachable env es"
  have c: "consume ?s = ?s" using assms(2) by (rule consume_idle)
  have lf: "lastFrame ?s = \<lparr>width = Num 1, height = Num 1\<rparr>" "texture ?s = Placeholder"
    using assms(1) by (rule reachable_unseen)+
  have off: "decorStep env p ?s m = (mat4_create, lastDecorTransformation ?s, [])" for m
    using assms(1) by (simp add: decorStep_off)
  have "sampled (fst (render env p ?s)) = []"
    by (simp add: sampled_step c off)
  moreover have "colorTransform (drawn env p ?s) = mat4_create"
    using assms(1) by (simp add: drawn_colour c compose_def)
  moreover have "shown (drawn env p ?s) = Placeholder"
    "sourceWidth (drawn env p ?s) = Num 1" "sourceHeight (drawn env p ?s) = Num 1"
    by (simp_all add: drawn_source c lf)
  moreover have "positionTransform (drawn env p ?s) = mat4_create" if "projection p = None"
    using that by (simp add: drawn_position project_def)
  moreover have "positionTransform (drawn env p ?s) =
      mat4scaleThenTranslate2d env (toScreen_x (f (Num 1))) (toScreen_y (f (Num 1)))
        (toScreen_scale (f (Num 1)))"
    if "projection p = Some f"
    using that by (simp add: drawn_position project_def c lf Let_def)
  ultimately show ?thesis by blast
qed

theorem before_first_frame_witness:
  "\<not> seenCamera (reachable example_env [AnimationFrame (Num 0) zoom_props])
   \<and> nextFrame (reachable example_env [AnimationFrame (Num 0) zoom_props]) = None
   \<and> sampled (fst (render example_env zoom_props
        (reachable example_env [AnimationFrame (Num 0) zoom_props]))) = []
   \<and> colorTransform (drawn example_env zoom_props
        (reachable example_env [AnimationFrame (Num 0) zoom_props])) = mat4_create
   \<and> sourceWidth (drawn example_env zoom_props
        (reachable example_env [AnimationFrame (Num 0) zoom_props])) = Num 1
   \<and> positionTransform (drawn example_env zoom_props
        (reachable example_env [AnimationFrame (Num 0) zoom_props])) = doubling[10 := Num 1]
   \<and> positionTransform (drawn example_env (example_props (Some (Num 1)) None)
        (reachable example_env [AnimationFrame (Num 0) zoom_props])) = mat4_create"
proof -
  let ?s = "reachable example_env [AnimationFrame (Num 0) zoom_props]"
  have a: "\<not> seenCamera ?s" "nextFrame ?s = None"
    by (simp_all add: reachable_def renderOnce_def snd_oncePerTimestamp differs_def render_rest
        consume_def initial_def)
  have z: "projection zoom_props = Some zoom"
    "projection (example_props (Some (Num 1)) None) = None"
    by (simp_all add: zoom_props_def example_props_def)
  have m: "mat4scaleThenTranslate2d example_env (toScreen_x (zoom (Num 1)))
      (toScreen_y (zoom (Num 1))) (toScreen_scale (zoom (Num 1))) = doubling[10 := Num 1]"
    by (simp add: example_env_def zoom_def doubling_def)
  note T1 = before_first_frame [OF a, of zoom_props zoom]
  note T2 = before_first_frame [OF a, of "example_props (Some (Num 1)) None" zoom]
  have b: "sampled (fst (render example_env zoom_props ?s)) = []"
    "colorTransform (drawn example_env zoom_props ?s) = mat4_create"
    "sourceWidth (drawn example_env zoom_props ?s) = Num 1"
    using T1 by blast+
  have "positionTransform (drawn example_env zoom_props ?s) =
      mat4scaleThenTranslate2d example_env (toScreen_x (zoom (Num 1)))
        (toScreen_y (zoom (Num 1))) (toScreen_scale (zoom (Num 1)))"
    using T1 z(1) by blast
  then have c: "positionTransform (drawn example_env zoom_props ?s) = doubling[10 := Num 1]"
    using m by (rule trans)
  have d: "positionTransform (drawn example_env (example_props (Some (Num 1)) None) ?s) = mat4_create"
    using T2 z(2) by blast
  show ?thesis using a b c d by blast
qed

text \<open>
  C5 as stated fails for the position transform: with a projection supplied, the tick
  before any frame draws with the position transform of that projection, here a scaling
  by 2, not with the identity.
\<close>

theorem before_first_frame_projection_counterexample:
  "\<not> seenCamera (reachable example_env [])
   \<and> nextFrame (reachable example_env []) = None
   \<and> positionTransform (drawn example_env zoom_props (reachable example_env [])) \<noteq> mat4_create"
  by (simp add: reachable_def initial_def drawn_position consume_def project_def zoom_props_def
      zoom_def example_env_def mat4_create_def Let_def)

section \<open>Ticks with decorrelation disabled\<close>




section \<open>Composition with the post transform\<close>

text \<open>
  C7. In a tick with a frame seen: with a post transform supplied, the colour transform of
  the draw call is \<open>mat4.multiply\<close> of the post transform and the decorrelation
  transform, which read row by row is the decorrelation transform multiplied on the right
  by the post transform; for finite matrices, applying it to a colour is applying the
  decorrelation transform and then the post transform. With no post transform the colour
  transform is the decorrelation transform itself.
\<close>

theorem post_after_decor:
  assumes "seenCamera (consume s0)"
  shows "(post p = Some m \<longrightarrow>
            colorTransform (drawn env p s0) = mat4_multiply m (decorTransformation_of env p s0)
          \<and> colorTransform (drawn env p s0) = times_rows (decorTransformation_of env p s0) m
          \<and> (finite_mat 16 m \<and> finite_mat 16 (decorTransformation_of env p s0) \<and> finite_mat 4 v \<longrightarrow>
               transformMat4 (colorTransform (drawn env p s0)) v =
                 transformMat4 m (transformMat4 (decorTransformation_of env p s0) v)))
       \<and> (post p = None \<longrightarrow> colorTransform (drawn env p s0) = decorTransformation_of env p s0)"
  using assms
  by (auto simp: drawn_colour compose_def multiply_as_rows [symmetric] transform_product)

lemma first_frame_decor:
  "decorTransformation_of example_env (example_props (Some (Num 1)) m) first_frame = doubling"
  by (simp add: decorTransformation_of_def first_frame_consumed decorStep_def example_props_def
      truthy_def example_build doubling_def Let_def)

theorem post_after_decor_witness:
  "seenCamera (consume first_frame)
   \<and> finite_mat 16 (doubling[12 := Num 1])
   \<and> finite_mat 16 (decorTransformation_of example_env
        (example_props (Some (Num 1)) (Some (doubling[12 := Num 1]))) first_frame)
   \<and> finite_mat 4 [Num 1, Num 2, Num 3, Num 1]
   \<and> colorTransform (drawn example_env
        (example_props (Some (Num 1)) (Some (doubling[12 := Num 1]))) first_frame)
      = [Num 4, Num 0, Num 0, Num 0, Num 0, Num 4, Num 0, Num 0,
         Num 0, Num 0, Num 4, Num 0, Num 1, Num 0, Num 0, Num 1]
   \<and> transformMat4 (colorTransform (drawn example_env
        (example_props (Some (Num 1)) (Some (doubling[12 := Num 1]))) first_frame))
        [Num 1, Num 2, Num 3, Num 1]
      = transformMat4 (doubling[12 := Num 1]) (transformMat4 doubling [Num 1, Num 2, Num 3, Num 1])
   \<and> colorTransform (drawn example_env (example_props (Some (Num 1)) None) first_frame)
      = doubling"
proof -
  let ?m = "doubling[12 := Num 1]"
  have seen: "seenCamera (consume first_frame)"
    by (simp add: first_frame_consumed)
  have fin: "finite_mat 16 ?m" "finite_mat 16 doubling" "finite_mat 4 [Num 1, Num 2, Num 3, Num 1]"
    by (simp_all add: finite_mat_def doubling_def)
  have p: "post (example_props (Some (Num 1)) (Some ?m)) = Some ?m"
    "post (example_props (Some (Num 1)) None) = None"
    by (simp_all add: example_props_def)
  have prod: "mat4_multiply ?m doubling =
      [Num 4, Num 0, Num 0, Num 0, Num 0, Num 4, Num 0, Num 0,
       Num 0, Num 0, Num 4, Num 0, Num 1, Num 0, Num 0, Num 1]"
    by (simp add: mat4_multiply_def mul_line_def doubling_def rd_def)
  let ?p = "example_props (Some (Num 1)) (Some ?m)"
  let ?v = "[Num 1, Num 2, Num 3, Num 1]"
  note T1 = post_after_decor [OF seen, of ?p ?m example_env ?v]
  note T2 = post_after_decor [OF seen, of "example_props (Some (Num 1)) None" ?m example_env ?v]
  have dd: "decorTransformation_of example_env ?p first_frame = doubling"
    "decorTransformation_of example_env (example_props (Some (Num 1)) None) first_frame = doubling"
    by (rule first_frame_decor)+
  have f: "finite_mat 16 (decorTransformation_of example_env ?p first_frame)"
    using fin(2) dd(1) by simp
  have "colorTransform (drawn example_env ?p first_frame) =
      mat4_multiply ?m (decorTransformation_of example_env ?p first_frame)"
    using T1 p(1) by blast
  then have a: "colorTransform (drawn example_env ?p first_frame) =
      [Num 4, Num 0, Num 0, Num 0, Num 0, Num 4, Num 0, Num 0,
       Num 0, Num 0, Num 4, Num 0, Num 1, Num 0, Num 0, Num 1]"
    using prod dd(1) by simp
  have "transformMat4 (colorTransform (drawn example_env ?p first_frame)) ?v =
      transformMat4 ?m (transformMat4 (decorTransformation_of example_env ?p first_frame) ?v)"
    using T1 p(1) fin(1) f fin(3) by blast
  then have b: "transformMat4 (colorTransform (drawn example_env ?p first_frame)) ?v =
      transformMat4 ?m (transformMat4 doubling ?v)"
    using dd(1) by simp
  have "colorTransform (drawn example_env (example_props (Some (Num 1)) None) first_frame) =
      decorTransformation_of example_env (example_props (Some (Num 1)) None) first_frame"
    using T2 p(2) by blast
  then have c: "colorTransform (drawn example_env (example_props (Some (Num 1)) None) first_frame) = doubling"
    using dd(2) by simp
  show ?thesis using seen fin(1) f fin(3) a b c by blast
qed


section \<open>Initialisation\<close>

text \<open>
  C6, as the code has it. With a context that has neither extension, the callback reports
  exactly one error and runs on: the sampler is constructed with 32-bit accumulation and
  the render function is installed. With the half-float extension alone the sampler is
  constructed with 16-bit accumulation and with the float extension with 32-bit
  accumulation, and nothing is reported.
\<close>

theorem canvasRef_bitDepth:
  assumes "webgl2 c = Some g"
  shows "(\<not> EXT_color_buffer_float g \<and> \<not> EXT_color_buffer_half_float g \<longrightarrow>
            canvasRef (Some c) reported =
              (Inr (Some \<lparr>sampler_nsamples = 1000, sampler_bitDepth = 32,
                           renderFrame = (None, initial)\<rparr>),
               reported @ [Error ''Could not get WebGL extenstion EXT_color_buffer_float or EXT_color_buffer_half_float'']))
       \<and> (\<not> EXT_color_buffer_float g \<and> EXT_color_buffer_half_float g \<longrightarrow>
            canvasRef (Some c) reported =
              (Inr (Some \<lparr>sampler_nsamples = 1000, sampler_bitDepth = 16,
                           renderFrame = (None, initial)\<rparr>),
               reported))
       \<and> (EXT_color_buffer_float g \<longrightarrow>
            canvasRef (Some c) reported =
              (Inr (Some \<lparr>sampler_nsamples = 1000, sampler_bitDepth = 32,
                           renderFrame = (None, initial)\<rparr>),
               reported))"
  using assms by (simp add: canvasRef_def nsamples_def onError_def)

theorem canvasRef_bitDepth_witness:
  "webgl2 half_canvas = Some \<lparr>EXT_color_buffer_float = False, EXT_color_buffer_half_float = True\<rparr>
   \<and> canvasRef (Some half_canvas) [] =
       (Inr (Some \<lparr>sampler_nsamples = 1000, sampler_bitDepth = 16,
                    renderFrame = (None, initial :: unit state)\<rparr>), [])
   \<and> length (snd (canvasRef (Some bare_canvas) [] :: (error + unit pipeline option) \<times> error list)) = 1"
proof -
  have h: "webgl2 half_canvas = Some \<lparr>EXT_color_buffer_float = False, EXT_color_buffer_half_float = True\<rparr>"
    by (simp add: half_canvas_def)
  have b: "webgl2 bare_canvas = Some \<lparr>EXT_color_buffer_float = False, EXT_color_buffer_half_float = False\<rparr>"
    by (simp add: bare_canvas_def)
  have "canvasRef (Some half_canvas) [] =
       (Inr (Some \<lparr>sampler_nsamples = 1000, sampler_bitDepth = 16,
                    renderFrame = (None, initial :: unit state)\<rparr>), [])"
    using canvasRef_bitDepth [where ?'a = unit, OF h, of "[]"] by simp
  moreover have "length (snd (canvasRef (Some bare_canvas) [] :: (error + unit pipeline option) \<times> error list)) = 1"
    using canvasRef_bitDepth [where ?'a = unit, OF b, of "[]"] by simp
  ultimately show ?thesis using h by blast
qed

text \<open>
  C6 as stated fails where it says that the pipeline does not start: with neither
  extension the callback still constructs the sampler, with 32-bit accumulation, and
  installs the render function, and the next animation frame draws.
\<close>

theorem canvasRef_starts_counterexample:
  "fst (canvasRef (Some bare_canvas) []) =
     Inr (Some \<lparr>sampler_nsamples = 1000, sampler_bitDepth = 32,
                 renderFrame = (None, initial :: unit state)\<rparr>)
   \<and> fst (renderOnce example_env (example_props None None) (Num 0) (None, initial)) \<noteq> None"
  by (simp add: canvasRef_def bare_canvas_def nsamples_def renderOnce_def oncePerTimestamp_def
      differs_def split: prod.splits)

section \<open>The camera's frame loop\<close>

lemma deliver_current:
  assumes "current w = Some node" "registered w"
  shows "current (deliver node d w) = Some node" "registered (deliver node d w)"
    and "handled (deliver node d w) = handled w + (if fst d = None then 0 else 1)"
  using assms
  by (auto simp: deliver_def videoFrameCallback_def watch_def split: prod.splits option.splits)

lemma deliveries_registered:
  assumes "current w = Some node" "registered w"
  shows "registered (deliveries node ds w)
       \<and> handled (deliveries node ds w) = handled w + length (filter (\<lambda>d. fst d \<noteq> None) ds)"
  using assms
proof (induction ds arbitrary: w)
  case Nil
  then show ?case by simp
next
  case (Cons d ds)
  from Cons.IH [OF deliver_current(1,2) [OF Cons.prems]]
  show ?case
    by (simp add: deliver_current(3) [OF Cons.prems])
qed

text \<open>
  C9. While the node the callback watches is the camera's current node and the callback
  is registered: when the frame handler throws on a delivered frame, the error goes to
  the error handler and the callback is registered again; and after any sequence of
  delivered frames, whichever handlers throw, the callback is still registered and every
  frame that found a handler has been handed to it.
\<close>

theorem frame_loop_survives:
  assumes "current w = Some node" "registered w"
  shows "(h now f node (app w) = (Some e, a) \<longrightarrow>
            reports (deliver node (Some h, now, f) w) = reports w @ [e]
          \<and> registered (deliver node (Some h, now, f) w))
       \<and> registered (deliveries node ds w)
       \<and> handled (deliveries node ds w) = handled w + length (filter (\<lambda>d. fst d \<noteq> None) ds)"
proof -
  have "reports (deliver node (Some h, now, f) w) = reports w @ [e]
          \<and> registered (deliver node (Some h, now, f) w)"
    if "h now f node (app w) = (Some e, a)"
    using that assms
    by (simp add: deliver_def videoFrameCallback_def watch_def onError_def)
  then show ?thesis
    using deliveries_registered [OF assms, of ds] by blast
qed

theorem frame_loop_survives_witness:
  "current (camRef 7 idle_watcher) = Some 7
   \<and> registered (camRef 7 idle_watcher)
   \<and> thrower (Num 0) vga 7 (app (camRef 7 idle_watcher)) = (Some (Error ''frame handler failed''), 1)
   \<and> reports (deliver 7 (Some thrower, Num 0, vga) (camRef 7 idle_watcher))
       = [Error ''frame handler failed'']
   \<and> registered (deliveries 7 [(Some thrower, Num 0, vga), (Some thrower, Num 16, vga)]
        (camRef 7 idle_watcher))
   \<and> handled (deliveries 7 [(Some thrower, Num 0, vga), (Some thrower, Num 16, vga)]
        (camRef 7 idle_watcher)) = 2"
proof -
  let ?w = "camRef 7 idle_watcher"
  let ?ds = "[(Some thrower, Num 0, vga), (Some thrower, Num 16, vga)]"
  have a: "current ?w = Some 7" "registered ?w"
    by (simp_all add: camRef_def watch_def idle_watcher_def)
  have t: "thrower (Num 0) vga 7 (app ?w) = (Some (Error ''frame handler failed''), 1)"
    by (simp add: thrower_def camRef_def watch_def idle_watcher_def)
  have r: "reports ?w = []" "handled ?w = 0"
    by (simp_all add: camRef_def watch_def idle_watcher_def)
  note T = frame_loop_survives [OF a, of thrower "Num 0" vga "Error ''frame handler failed''" 1 ?ds]
  have "reports (deliver 7 (Some thrower, Num 0, vga) ?w) = reports ?w @ [Error ''frame handler failed'']"
    using T t by blast
  then have b: "reports (deliver 7 (Some thrower, Num 0, vga) ?w) = [Error ''frame handler failed'']"
    using r(1) by simp
  have c: "registered (deliveries 7 ?ds ?w)"
    using T by blast
  have "handled (deliveries 7 ?ds ?w) = handled ?w + length (filter (\<lambda>d. fst d \<noteq> None) ?ds)"
    using T by blast
  then have d: "handled (deliveries 7 ?ds ?w) = 2"
    using r(2) by simp
  show ?thesis using a t b c d by blast
qed


section \<open>The builder of the spec and the mean\<close>

lemma rd_Cons_0: "rd (x # xs) 0 = x"
  by (simp add: rd_def)

lemma rd_Cons_Suc: "rd (x # xs) (Suc n) = rd xs n"
  by (simp add: rd_def)

lemma rd_Cons_numeral: "rd (x # xs) (numeral k) = rd xs (pred_numeral k)"
  by (simp add: rd_def numeral_eq_Suc)

lemma jsub_finite: "isFinite (jsub x y) \<Longrightarrow> \<exists>a b. x = Num a \<and> y = Num b"
  by (cases x; cases y) (simp_all add: jsub_def)

lemma affine_about_mean:
  assumes L: "\<And>i j. i < 3 \<Longrightarrow> j < 3 \<Longrightarrow> isFinite (L i j)"
    and t: "\<And>i. i < 3 \<Longrightarrow> isFinite (jsub (rd m i) (linear_at L m i))"
  shows "transformMat4
           [L 0 0, L 1 0, L 2 0, Num 0,
            L 0 1, L 1 1, L 2 1, Num 0,
            L 0 2, L 1 2, L 2 2, Num 0,
            jsub (rd m 0) (linear_at L m 0), jsub (rd m 1) (linear_at L m 1),
            jsub (rd m 2) (linear_at L m 2), Num 1]
           (colour m) = colour m"
proof -
  obtain a0 a1 a2 where m: "rd m 0 = Num a0" "rd m 1 = Num a1" "rd m 2 = Num a2"
    using jsub_finite [OF t [of 0]] jsub_finite [OF t [of 1]] jsub_finite [OF t [of 2]]
    by auto
  have ex: "\<exists>r. L i j = Num r" if "i < 3" "j < 3" for i j
    using L [OF that] by (rule isFinite_Num)
  obtain l00 l01 l02 where l0: "L 0 0 = Num l00" "L 0 1 = Num l01" "L 0 2 = Num l02"
    using ex [of 0 0] ex [of 0 1] ex [of 0 2] by auto
  obtain l10 l11 l12 where l1: "L 1 0 = Num l10" "L 1 1 = Num l11" "L 1 2 = Num l12"
    using ex [of 1 0] ex [of 1 1] ex [of 1 2] by auto
  obtain l20 l21 l22 where l2: "L 2 0 = Num l20" "L 2 1 = Num l21" "L 2 2 = Num l22"
    using ex [of 2 0] ex [of 2 1] ex [of 2 2] by auto
  note l = l0 l1 l2
  show ?thesis
    using l m
    by (simp add: transformMat4_def colour_def linear_at_def jsub_def rd_Cons_0 rd_Cons_Suc
        rd_Cons_numeral)
qed


text \<open>
  C8, for the builder as the spec describes it. Whatever the eigendecomposition, the
  rescale, the covariance, the mean and the strength: when the transform built has 16
  finite entries, applying it to the mean colour gives the mean colour.
\<close>

theorem decorStretcher_fixes_mean:
  assumes "finite_mat 16 (decorStretcher_spec eigen rescale cov means d)"
  shows "transformMat4 (decorStretcher_spec eigen rescale cov means d) (colour means) = colour means"
proof -
  obtain R variances where e: "eigen cov = (R, variances)"
    by (cases "eigen cov")
  define L where "L = stretch R (map (rescale d) variances)"
  have T: "decorStretcher_spec eigen rescale cov means d =
      [L 0 0, L 1 0, L 2 0, Num 0,
       L 0 1, L 1 1, L 2 1, Num 0,
       L 0 2, L 1 2, L 2 2, Num 0,
       jsub (rd means 0) (linear_at L means 0), jsub (rd means 1) (linear_at L means 1),
       jsub (rd means 2) (linear_at L means 2), Num 1]"
    by (simp add: decorStretcher_spec_def e L_def Let_def)
  have fin: "isFinite (L 0 0)" "isFinite (L 1 0)" "isFinite (L 2 0)"
    "isFinite (L 0 1)" "isFinite (L 1 1)" "isFinite (L 2 1)"
    "isFinite (L 0 2)" "isFinite (L 1 2)" "isFinite (L 2 2)"
    and tr: "isFinite (jsub (rd means 0) (linear_at L means 0))"
    "isFinite (jsub (rd means 1) (linear_at L means 1))"
    "isFinite (jsub (rd means 2) (linear_at L means 2))"
    using assms unfolding T finite_mat_def by simp_all
  have a: "isFinite (L i j)" if "i < 3" "j < 3" for i j
  proof -
    from that have "i = 0 \<or> i = 1 \<or> i = 2" "j = 0 \<or> j = 1 \<or> j = 2" by auto
    then show ?thesis using fin by auto
  qed
  have b: "isFinite (jsub (rd means i) (linear_at L means i))" if "i < 3" for i
  proof -
    from that have "i = 0 \<or> i = 1 \<or> i = 2" by auto
    then show ?thesis using tr by auto
  qed
  show ?thesis
    unfolding T using a b by (rule affine_about_mean)
qed

theorem decorStretcher_fixes_mean_witness:
  "finite_mat 16 (decorStretcher_spec axis_eigen ratio_rescale diagonal_cov
      [Num (1 / 2), Num (1 / 4), Num (1 / 8)] (Num 2))
   \<and> decorStretcher_spec axis_eigen ratio_rescale diagonal_cov
      [Num (1 / 2), Num (1 / 4), Num (1 / 8)] (Num 2)
     = [Num 2, Num 0, Num 0, Num 0,
        Num 0, Num (1 / 2), Num 0, Num 0,
        Num 0, Num 0, Num (1 / 4), Num 0,
        Num (- 1 / 2), Num (1 / 8), Num (3 / 32), Num 1]
   \<and> transformMat4 (decorStretcher_spec axis_eigen ratio_rescale diagonal_cov
      [Num (1 / 2), Num (1 / 4), Num (1 / 8)] (Num 2))
      [Num (1 / 2), Num (1 / 4), Num (1 / 8), Num 1]
     = [Num (1 / 2), Num (1 / 4), Num (1 / 8), Num 1]"
proof -
  let ?m = "[Num (1 / 2), Num (1 / 4), Num (1 / 8)]"
  let ?T = "decorStretcher_spec axis_eigen ratio_rescale diagonal_cov ?m (Num 2)"
  have v: "?T = [Num 2, Num 0, Num 0, Num 0,
        Num 0, Num (1 / 2), Num 0, Num 0,
        Num 0, Num 0, Num (1 / 4), Num 0,
        Num (- 1 / 2), Num (1 / 8), Num (3 / 32), Num 1]"
    by (simp add: decorStretcher_spec_def axis_eigen_def ratio_rescale_def diagonal_cov_def
        stretch_def entry_def linear_at_def jsub_def rd_def Let_def)
  have f: "finite_mat 16 ?T"
    unfolding v by (simp add: finite_mat_def)
  have c: "colour ?m = [Num (1 / 2), Num (1 / 4), Num (1 / 8), Num 1]"
    by (simp add: colour_def rd_def)
  have "transformMat4 ?T (colour ?m) = colour ?m"
    using f by (rule decorStretcher_fixes_mean)
  then have "transformMat4 ?T [Num (1 / 2), Num (1 / 4), Num (1 / 8), Num 1]
      = [Num (1 / 2), Num (1 / 4), Num (1 / 8), Num 1]"
    unfolding c .
  then show ?thesis using f v by blast
qed

end
